theory Spec2Isabelle
  imports Complex_Main
begin

section \<open>JavaScript values and errors\<close>

text \<open>
  The code is TypeScript running on Node. Values that cross an untyped boundary
  (\<^verbatim>\<open>JSON.parse\<close>, the \<^verbatim>\<open>arguments\<close> of a tool call, the token set a provider
  returns) are modelled as JavaScript values. An object is an association list of
  its own enumerable properties; the objects met here come from \<^verbatim>\<open>JSON.parse\<close> or
  an object literal, whose keys are unique, and \<open>map_of\<close> reads a key. Numbers are
  only ever tested for truthiness here, so a number is its real value.
\<close>

datatype jsval =
    JUndefined
  | JNull
  | JBool bool
  | JNum real
  | JStr string
  | JArr "jsval list"
  | JObj "(string \<times> jsval) list"

text \<open>
  A thrown value. Everything the code throws or lets through is an instance of
  \<^verbatim>\<open>Error\<close> (\<^verbatim>\<open>Error\<close>, \<^verbatim>\<open>TypeError\<close>, \<^verbatim>\<open>SyntaxError\<close>, \<^verbatim>\<open>ZodError\<close>, the file
  system's and the HTTP client's errors): a name and a message.
\<close>

datatype js_error = JsError (err_name: string) (message: string)

definition Error :: "string \<Rightarrow> js_error" where
  "Error msg = JsError ''Error'' msg"

definition TypeError :: "string \<Rightarrow> js_error" where
  "TypeError msg = JsError ''TypeError'' msg"

text \<open>\<^verbatim>\<open>String(error)\<close>, as the template literal \<^verbatim>\<open>`${error}`\<close> renders it.\<close>

definition error_to_string :: "js_error \<Rightarrow> string" where
  "error_to_string e = err_name e @ '': '' @ message e"

text \<open>Truthiness: what \<^verbatim>\<open>if (v)\<close>, \<^verbatim>\<open>!!v\<close>, \<^verbatim>\<open>a || b\<close> and \<^verbatim>\<open>a && b\<close> test.\<close>

fun truthy :: "jsval \<Rightarrow> bool" where
  "truthy JUndefined = False"
| "truthy JNull = False"
| "truthy (JBool b) = b"
| "truthy (JNum r) = (r \<noteq> 0)"
| "truthy (JStr s) = (s \<noteq> [])"
| "truthy (JArr xs) = True"
| "truthy (JObj kv) = True"

definition quoted :: "string \<Rightarrow> string" where
  "quoted k = [CHR 0x27] @ k @ [CHR 0x27]"

definition nullish_name :: "jsval \<Rightarrow> string" where
  "nullish_name v = (if v = JNull then ''null'' else ''undefined'')"

text \<open>
  Reading a named property \<^verbatim>\<open>v.k\<close>. On \<^verbatim>\<open>null\<close> and \<^verbatim>\<open>undefined\<close> it throws a
  \<^verbatim>\<open>TypeError\<close> (the message is V8's); on an object it is the property or
  \<^verbatim>\<open>undefined\<close>; on every other value it is \<^verbatim>\<open>undefined\<close>, none of the names read
  in this program being a property of a primitive or of an array.
\<close>

definition get_prop :: "jsval \<Rightarrow> string \<Rightarrow> js_error + jsval" where
  "get_prop v k =
     (case v of
        JUndefined \<Rightarrow> Inl (TypeError (''Cannot read properties of undefined (reading '' @ quoted k @ '')''))
      | JNull \<Rightarrow> Inl (TypeError (''Cannot read properties of null (reading '' @ quoted k @ '')''))
      | JObj kv \<Rightarrow> (case map_of kv k of None \<Rightarrow> Inr JUndefined | Some x \<Rightarrow> Inr x)
      | _ \<Rightarrow> Inr JUndefined)"

text \<open>
  Reading the first element \<^verbatim>\<open>v[0]\<close>: of an array its first element, of a string
  its first character, of an object its property \<^verbatim>\<open>"0"\<close>.
\<close>

definition get_index0 :: "jsval \<Rightarrow> js_error + jsval" where
  "get_index0 v =
     (case v of
        JUndefined \<Rightarrow> Inl (TypeError (''Cannot read properties of undefined (reading '' @ quoted ''0'' @ '')''))
      | JNull \<Rightarrow> Inl (TypeError (''Cannot read properties of null (reading '' @ quoted ''0'' @ '')''))
      | JArr xs \<Rightarrow> (case xs of [] \<Rightarrow> Inr JUndefined | x # _ \<Rightarrow> Inr x)
      | JStr s \<Rightarrow> (case s of [] \<Rightarrow> Inr JUndefined | c # _ \<Rightarrow> Inr (JStr [c]))
      | JObj kv \<Rightarrow> (case map_of kv ''0'' of None \<Rightarrow> Inr JUndefined | Some x \<Rightarrow> Inr x)
      | _ \<Rightarrow> Inr JUndefined)"

section \<open>The OAuth2 client of google-auth-library\<close>

text \<open>
  What the library's client object holds: the identity its constructor was given
  and the credentials, which \<^verbatim>\<open>setCredentials(t)\<close> assigns
  (\<^verbatim>\<open>this.credentials = t\<close>). The constructor is the library's and a
  parameter below.
\<close>

record oauth2_client =
  clientId :: jsval
  clientSecret :: jsval
  redirectUri :: jsval
  credentials :: jsval

definition setCredentials :: "oauth2_client \<Rightarrow> jsval \<Rightarrow> oauth2_client" where
  "setCredentials c t = c\<lparr>credentials := t\<rparr>"

text \<open>The options object \<^verbatim>\<open>getAuthUrl\<close> passes to \<^verbatim>\<open>generateAuthUrl\<close>.\<close>

record auth_url_opts =
  access_type :: string
  scope :: "string list"

section \<open>The world outside the process\<close>

text \<open>
  The environment variable, the files, the log of outbound calls (the codes sent
  to the provider's token endpoint) and the console (both of its streams, in
  order). \<^verbatim>\<open>fs.writeFile(path, data)\<close> opens the file with the flag \<^verbatim>\<open>w\<close>,
  which creates or truncates it, and then writes. It can be refused at the open
  (a read-only file or directory), which leaves the file as it was, or fail
  after the open (a full disk), which leaves the bytes written so far: the world
  says for each path whether a write to it meets such a fault.
\<close>

datatype write_fault = RefusedAtOpen | FailsAfter nat

record world =
  GOOGLE_CREDENTIALS :: "string option"
  files :: "string \<Rightarrow> string option"
  write_faults :: "string \<Rightarrow> write_fault option"
  outbound :: "string list"
  console :: "string list"

definition fs_readFile :: "world \<Rightarrow> string \<Rightarrow> js_error + string" where
  "fs_readFile w p =
     (case files w p of
        None \<Rightarrow> Inl (Error (''ENOENT: no such file or directory, open '' @ quoted p))
      | Some content \<Rightarrow> Inr content)"

definition fs_writeFile :: "world \<Rightarrow> string \<Rightarrow> string \<Rightarrow> (js_error + unit) \<times> world" where
  "fs_writeFile w p d =
     (case write_faults w p of
        Some RefusedAtOpen \<Rightarrow> (Inl (Error (''EACCES: permission denied, open '' @ quoted p)), w)
      | Some (FailsAfter n) \<Rightarrow>
          (Inl (Error ''ENOSPC: no space left on device, write''),
           w\<lparr>files := (files w)(p \<mapsto> take n d)\<rparr>)
      | None \<Rightarrow> (Inr (), w\<lparr>files := (files w)(p \<mapsto> d)\<rparr>))"

definition console_log :: "world \<Rightarrow> string \<Rightarrow> world" where
  "console_log w line = w\<lparr>console := console w @ [line]\<rparr>"

section \<open>Validation issues of zod\<close>

datatype path_elem = Key string | Idx nat

datatype zod_issue = InvalidType (expected: string) (received: string) (path: "path_elem list")

section \<open>What the libraries compute\<close>

text \<open>
  The functions of the runtime and of the libraries whose results the code only
  passes on are parameters: \<^verbatim>\<open>JSON.parse\<close> (throwing a \<^verbatim>\<open>SyntaxError\<close>),
  \<^verbatim>\<open>JSON.stringify(v, null, 2)\<close>, the constructor
  \<^verbatim>\<open>new OAuth2Client(client_id, client_secret, redirect_uri)\<close>, the client's
  \<^verbatim>\<open>generateAuthUrl\<close>, its
  \<^verbatim>\<open>getToken\<close> (the outbound call: the provider's answer to a code, an error or
  the token set, an object), the message of a \<^verbatim>\<open>ZodError\<close> for its issues, and
  the decimal rendering of a number.
\<close>

record externals =
  JSON_parse :: "string \<Rightarrow> js_error + jsval"
  JSON_stringify :: "jsval \<Rightarrow> string"
  new_OAuth2Client :: "jsval \<Rightarrow> jsval \<Rightarrow> jsval \<Rightarrow> oauth2_client"
  generateAuthUrl :: "oauth2_client \<Rightarrow> auth_url_opts \<Rightarrow> string"
  getToken :: "world \<Rightarrow> oauth2_client \<Rightarrow> string \<Rightarrow> js_error + (string \<times> jsval) list"
  zod_message :: "zod_issue list \<Rightarrow> string"
  Number_toString :: "real \<Rightarrow> string"

section \<open>The credential manager: class GoogleAuth\<close>

record google_auth =
  oauth2Client :: "oauth2_client option"
  credentialsPath :: string
  tokenPath :: string

text \<open>
  \<^verbatim>\<open>path.join(dir, rel)\<close> on POSIX: the non-empty arguments joined by a slash,
  then normalised. Empty and \<^verbatim>\<open>.\<close> segments are dropped; \<^verbatim>\<open>..\<close> removes the
  segment before it, is kept in a relative path that has none, and is dropped at
  the root.
\<close>

fun split_slash :: "string \<Rightarrow> string list" where
  "split_slash [] = [[]]"
| "split_slash (c # cs) =
     (if c = CHR ''/'' then [] # split_slash cs
      else (case split_slash cs of [] \<Rightarrow> [[c]] | seg # segs \<Rightarrow> (c # seg) # segs))"

text \<open>The segments kept so far are held last first.\<close>

fun normalize_segments :: "bool \<Rightarrow> string list \<Rightarrow> string list \<Rightarrow> string list" where
  "normalize_segments allowAboveRoot [] kept = rev kept"
| "normalize_segments allowAboveRoot (seg # segs) kept =
     (if seg = [] \<or> seg = ''.'' then normalize_segments allowAboveRoot segs kept
      else if seg = ''..'' then
        (case kept of
           k # ks \<Rightarrow>
             if k \<noteq> ''..'' then normalize_segments allowAboveRoot segs ks
             else if allowAboveRoot then normalize_segments allowAboveRoot segs (seg # kept)
             else normalize_segments allowAboveRoot segs kept
         | [] \<Rightarrow>
             if allowAboveRoot then normalize_segments allowAboveRoot segs [seg]
             else normalize_segments allowAboveRoot segs [])
      else normalize_segments allowAboveRoot segs (seg # kept))"

fun join_slash :: "string list \<Rightarrow> string" where
  "join_slash [] = []"
| "join_slash [seg] = seg"
| "join_slash (seg # seg' # segs) = seg @ ''/'' @ join_slash (seg' # segs)"

definition path_normalize :: "string \<Rightarrow> string" where
  "path_normalize p =
     (if p = [] then ''.''
      else
        (let isAbsolute = (hd p = CHR ''/'');
             trailingSeparator = (last p = CHR ''/'');
             q = join_slash (normalize_segments (\<not> isAbsolute) (split_slash p) [])
         in if q = [] then (if isAbsolute then ''/'' else if trailingSeparator then ''./'' else ''.'')
            else (if isAbsolute then ''/'' else []) @ q @ (if trailingSeparator then ''/'' else [])))"

definition path_join :: "string \<Rightarrow> string \<Rightarrow> string" where
  "path_join dir rel =
     path_normalize (if dir = [] then rel else if rel = [] then dir else dir @ ''/'' @ rel)"

definition new_GoogleAuth :: "string \<Rightarrow> google_auth" where
  "new_GoogleAuth dirname =
     \<lparr>oauth2Client = None,
      credentialsPath = path_join dirname ''../credentials.json'',
      tokenPath = path_join dirname ''../token.json''\<rparr>"

text \<open>
  Lines 27 to 41 of \<^verbatim>\<open>initialize\<close>: the credentials from the environment variable
  when it is a non-empty string, from the file otherwise. \<open>Inl e\<close> is thrown to
  the outer \<^verbatim>\<open>catch\<close>; \<open>Inr None\<close> is the early \<^verbatim>\<open>return\<close> of the inner
  \<^verbatim>\<open>catch\<close>.
\<close>

definition load_credentials ::
  "externals \<Rightarrow> world \<Rightarrow> google_auth \<Rightarrow> (js_error + jsval option) \<times> world" where
  "load_credentials ext w a =
     (case GOOGLE_CREDENTIALS w of
        Some (c # cs) \<Rightarrow>
          (case JSON_parse ext (c # cs) of
             Inl e \<Rightarrow> (Inl e, w)
           | Inr v \<Rightarrow> (Inr (Some v), w))
      | _ \<Rightarrow>
          (case fs_readFile w (credentialsPath a) of
             Inl e \<Rightarrow> (Inr None, console_log w ''No credentials file found. Please set GOOGLE_CREDENTIALS environment variable or provide credentials.json'')
           | Inr content \<Rightarrow>
               (case JSON_parse ext content of
                  Inl e \<Rightarrow> (Inr None, console_log w ''No credentials file found. Please set GOOGLE_CREDENTIALS environment variable or provide credentials.json'')
                | Inr v \<Rightarrow> (Inr (Some v), w))))"

text \<open>
  Lines 43 to 49: \<^verbatim>\<open>credentials.installed || credentials.web\<close>, destructured
  (which throws on \<^verbatim>\<open>null\<close> and \<^verbatim>\<open>undefined\<close>; the message is abridged), and
  the client built from \<^verbatim>\<open>redirect_uris[0]\<close>.
\<close>

definition make_client :: "externals \<Rightarrow> jsval \<Rightarrow> js_error + oauth2_client" where
  "make_client ext creds =
     (case get_prop creds ''installed'' of
        Inl e \<Rightarrow> Inl e
      | Inr installed \<Rightarrow>
          (case (if truthy installed then Inr installed else get_prop creds ''web'') of
             Inl e \<Rightarrow> Inl e
           | Inr src \<Rightarrow>
               if src = JUndefined \<or> src = JNull
               then Inl (TypeError (''Cannot destructure property client_id of credentials.installed || credentials.web as it is '' @ nullish_name src @ ''.''))
               else
                 (case (get_prop src ''client_id'', get_prop src ''client_secret'', get_prop src ''redirect_uris'') of
                    (Inr client_id, Inr client_secret, Inr redirect_uris) \<Rightarrow>
                      (case get_index0 redirect_uris of
                         Inl e \<Rightarrow> Inl e
                       | Inr first \<Rightarrow> Inr (new_OAuth2Client ext client_id client_secret first))
                  | (Inl e, _, _) \<Rightarrow> Inl e
                  | (_, Inl e, _) \<Rightarrow> Inl e
                  | (_, _, Inl e) \<Rightarrow> Inl e)))"

text \<open>
  Lines 51 to 57: the persisted token, when the file reads and parses, becomes
  the client's credentials; otherwise a line is logged.
\<close>

definition load_token ::
  "externals \<Rightarrow> world \<Rightarrow> google_auth \<Rightarrow> oauth2_client \<Rightarrow> oauth2_client \<times> world" where
  "load_token ext w a c =
     (case fs_readFile w (tokenPath a) of
        Inl e \<Rightarrow> (c, console_log w ''No token found, authorization required'')
      | Inr tokenContent \<Rightarrow>
          (case JSON_parse ext tokenContent of
             Inl e \<Rightarrow> (c, console_log w ''No token found, authorization required'')
           | Inr token \<Rightarrow> (setCredentials c token, w)))"

definition initialize_body ::
  "externals \<Rightarrow> world \<Rightarrow> google_auth \<Rightarrow> (js_error + unit) \<times> google_auth \<times> world" where
  "initialize_body ext w a =
     (case load_credentials ext w a of
        (Inl e, w1) \<Rightarrow> (Inl e, a, w1)
      | (Inr None, w1) \<Rightarrow> (Inr (), a, w1)
      | (Inr (Some creds), w1) \<Rightarrow>
          (case make_client ext creds of
             Inl e \<Rightarrow> (Inl e, a, w1)
           | Inr c \<Rightarrow>
               (case load_token ext w1 a c of
                  (c', w2) \<Rightarrow> (Inr (), a\<lparr>oauth2Client := Some c'\<rparr>, w2))))"

text \<open>The outer \<^verbatim>\<open>try\<close> of \<^verbatim>\<open>initialize\<close>: whatever the body throws is logged.\<close>

definition initialize ::
  "externals \<Rightarrow> world \<Rightarrow> google_auth \<Rightarrow> (js_error + unit) \<times> google_auth \<times> world" where
  "initialize ext w a =
     (case initialize_body ext w a of
        (Inl e, a', w') \<Rightarrow>
          (Inr (), a', console_log w' (''Failed to initialize Google Auth: '' @ error_to_string e))
      | (Inr u, a', w') \<Rightarrow> (Inr u, a', w'))"

definition homegraph_scope :: string where
  "homegraph_scope = ''https://www.googleapis.com/auth/homegraph''"

definition assistant_scope :: string where
  "assistant_scope = ''https://www.googleapis.com/auth/assistant-sdk-prototype''"

definition getAuthUrl :: "externals \<Rightarrow> google_auth \<Rightarrow> js_error + string" where
  "getAuthUrl ext a =
     (case oauth2Client a of
        None \<Rightarrow> Inl (Error ''OAuth2 client not initialized'')
      | Some c \<Rightarrow>
          Inr (generateAuthUrl ext c
                 \<lparr>access_type = ''offline'', scope = [homegraph_scope, assistant_scope]\<rparr>))"

text \<open>
  \<^verbatim>\<open>getTokenFromCode\<close>: the outbound call, then the credentials set on the client,
  then the write of the token file.
\<close>

definition getTokenFromCode ::
  "externals \<Rightarrow> world \<Rightarrow> google_auth \<Rightarrow> string \<Rightarrow> (js_error + unit) \<times> google_auth \<times> world" where
  "getTokenFromCode ext w a code =
     (case oauth2Client a of
        None \<Rightarrow> (Inl (Error ''OAuth2 client not initialized''), a, w)
      | Some c \<Rightarrow>
          (let w1 = w\<lparr>outbound := outbound w @ [code]\<rparr> in
           case getToken ext w c code of
             Inl e \<Rightarrow> (Inl e, a, w1)
           | Inr tokens \<Rightarrow>
               (let a1 = a\<lparr>oauth2Client := Some (setCredentials c (JObj tokens))\<rparr> in
                case fs_writeFile w1 (tokenPath a) (JSON_stringify ext (JObj tokens)) of
                  (Inl e, w2) \<Rightarrow> (Inl e, a1, w2)
                | (Inr u, w2) \<Rightarrow> (Inr (), a1, w2))))"

definition getClient :: "google_auth \<Rightarrow> js_error + oauth2_client" where
  "getClient a =
     (case oauth2Client a of
        None \<Rightarrow> Inl (Error ''OAuth2 client not initialized'')
      | Some c \<Rightarrow> Inr c)"

text \<open>
  \<^verbatim>\<open>!!(this.oauth2Client && this.oauth2Client.credentials.access_token)\<close>. Reading
  \<^verbatim>\<open>access_token\<close> throws when the credentials are \<^verbatim>\<open>null\<close>, which a token file
  holding \<^verbatim>\<open>null\<close> makes them.
\<close>

definition isAuthenticated :: "google_auth \<Rightarrow> js_error + bool" where
  "isAuthenticated a =
     (case oauth2Client a of
        None \<Rightarrow> Inr False
      | Some c \<Rightarrow>
          (case get_prop (credentials c) ''access_token'' of
             Inl e \<Rightarrow> Inl e
           | Inr t \<Rightarrow> Inr (truthy t)))"

section \<open>Argument schemas: zod\<close>

text \<open>
  The schemas the source declares are objects whose fields are \<^verbatim>\<open>z.string()\<close>,
  \<^verbatim>\<open>z.array(...)\<close> and \<^verbatim>\<open>.optional()\<close> (\<^verbatim>\<open>.describe\<close> only annotates).
  \<^verbatim>\<open>parse\<close> collects an issue for every value of the wrong type, a missing key
  being read as \<^verbatim>\<open>undefined\<close>, and throws a \<^verbatim>\<open>ZodError\<close> when there is one;
  otherwise it returns an object of the declared keys that are present.
\<close>

datatype ztype = ZString | ZArray ztype | ZOptional ztype

type_synonym zshape = "(string \<times> ztype) list"

fun parsed_type :: "jsval \<Rightarrow> string" where
  "parsed_type JUndefined = ''undefined''"
| "parsed_type JNull = ''null''"
| "parsed_type (JBool b) = ''boolean''"
| "parsed_type (JNum r) = ''number''"
| "parsed_type (JStr s) = ''string''"
| "parsed_type (JArr xs) = ''array''"
| "parsed_type (JObj kv) = ''object''"

fun zod_check :: "ztype \<Rightarrow> path_elem list \<Rightarrow> jsval \<Rightarrow> zod_issue list" where
  "zod_check ZString p v =
     (case v of JStr s \<Rightarrow> [] | _ \<Rightarrow> [InvalidType ''string'' (parsed_type v) p])"
| "zod_check (ZArray t) p v =
     (case v of
        JArr xs \<Rightarrow> concat (map (\<lambda>(i, x). zod_check t (p @ [Idx i]) x) (enumerate 0 xs))
      | _ \<Rightarrow> [InvalidType ''array'' (parsed_type v) p])"
| "zod_check (ZOptional t) p v =
     (case v of JUndefined \<Rightarrow> [] | _ \<Rightarrow> zod_check t p v)"

definition obj_get :: "(string \<times> jsval) list \<Rightarrow> string \<Rightarrow> jsval" where
  "obj_get kv k = (case map_of kv k of None \<Rightarrow> JUndefined | Some x \<Rightarrow> x)"

definition object_issues :: "zshape \<Rightarrow> (string \<times> jsval) list \<Rightarrow> zod_issue list" where
  "object_issues shape kv = concat (map (\<lambda>(k, t). zod_check t [Key k] (obj_get kv k)) shape)"

definition strip_unknown :: "zshape \<Rightarrow> (string \<times> jsval) list \<Rightarrow> (string \<times> jsval) list" where
  "strip_unknown shape kv =
     concat (map (\<lambda>(k, t). case map_of kv k of None \<Rightarrow> [] | Some x \<Rightarrow> [(k, x)]) shape)"

definition ZodError :: "externals \<Rightarrow> zod_issue list \<Rightarrow> js_error" where
  "ZodError ext issues = JsError ''ZodError'' (zod_message ext issues)"

definition schema_parse ::
  "externals \<Rightarrow> zshape \<Rightarrow> jsval \<Rightarrow> js_error + (string \<times> jsval) list" where
  "schema_parse ext shape v =
     (case v of
        JObj kv \<Rightarrow>
          (if object_issues shape kv = [] then Inr (strip_unknown shape kv)
           else Inl (ZodError ext (object_issues shape kv)))
      | _ \<Rightarrow> Inl (ZodError ext [InvalidType ''object'' (parsed_type v) []]))"

definition ExecuteCommandSchema :: zshape where
  "ExecuteCommandSchema = [(''command'', ZString), (''devices'', ZOptional (ZArray ZString))]"

definition QueryDevicesSchema :: zshape where
  "QueryDevicesSchema = [(''devices'', ZOptional (ZArray ZString))]"

definition GetDeviceStatesSchema :: zshape where
  "GetDeviceStatesSchema = [(''deviceIds'', ZArray ZString)]"

definition AuthenticateSchema :: zshape where
  "AuthenticateSchema = [(''code'', ZString)]"

section \<open>Strings from values\<close>

fun join_strings :: "string \<Rightarrow> string list \<Rightarrow> string" where
  "join_strings sep [] = []"
| "join_strings sep [x] = x"
| "join_strings sep (x # y # ys) = x @ sep @ join_strings sep (y # ys)"

text \<open>
  \<^verbatim>\<open>String(v)\<close>, the conversion a template literal applies. An array is its
  elements joined by a comma, \<^verbatim>\<open>null\<close> and \<^verbatim>\<open>undefined\<close> elements being empty.
\<close>

fun js_String :: "externals \<Rightarrow> jsval \<Rightarrow> string" where
  "js_String ext JUndefined = ''undefined''"
| "js_String ext JNull = ''null''"
| "js_String ext (JBool b) = (if b then ''true'' else ''false'')"
| "js_String ext (JNum r) = Number_toString ext r"
| "js_String ext (JStr s) = s"
| "js_String ext (JArr xs) =
     join_strings '',''
       (map (\<lambda>x. if x = JUndefined \<or> x = JNull then [] else js_String ext x) xs)"
| "js_String ext (JObj kv) = ''[object Object]''"

text \<open>\<^verbatim>\<open>Array.prototype.join(sep)\<close>.\<close>

definition js_join :: "externals \<Rightarrow> string \<Rightarrow> jsval list \<Rightarrow> string" where
  "js_join ext sep xs =
     join_strings sep
       (map (\<lambda>x. if x = JUndefined \<or> x = JNull then [] else js_String ext x) xs)"

text \<open>
  The method call \<^verbatim>\<open>v.join(sep)\<close>: a value parsed from JSON has the method only
  when it is an array.
\<close>

definition call_join :: "externals \<Rightarrow> string \<Rightarrow> jsval \<Rightarrow> string \<Rightarrow> js_error + jsval" where
  "call_join ext nm v sep =
     (case v of
        JUndefined \<Rightarrow> Inl (TypeError (''Cannot read properties of undefined (reading '' @ quoted ''join'' @ '')''))
      | JNull \<Rightarrow> Inl (TypeError (''Cannot read properties of null (reading '' @ quoted ''join'' @ '')''))
      | JArr xs \<Rightarrow> Inr (JStr (js_join ext sep xs))
      | _ \<Rightarrow> Inl (TypeError (nm @ ''.join is not a function'')))"

text \<open>The optional call \<^verbatim>\<open>v?.join(sep)\<close>: \<^verbatim>\<open>undefined\<close> when \<open>v\<close> is nullish.\<close>

definition optional_call_join ::
  "externals \<Rightarrow> string \<Rightarrow> jsval \<Rightarrow> string \<Rightarrow> js_error + jsval" where
  "optional_call_join ext nm v sep =
     (if v = JUndefined \<or> v = JNull then Inr JUndefined else call_join ext nm v sep)"

text \<open>\<^verbatim>\<open>devices?.join(', ') || 'all devices'\<close>, as the template literal renders it.\<close>

definition devices_or_all :: "externals \<Rightarrow> jsval \<Rightarrow> js_error + string" where
  "devices_or_all ext devices =
     (case optional_call_join ext ''devices'' devices '', '' of
        Inl e \<Rightarrow> Inl e
      | Inr j \<Rightarrow> Inr (js_String ext (if truthy j then j else JStr ''all devices'')))"

section \<open>The tool server: class GoogleHomeMCP\<close>

text \<open>
  The handle \<^verbatim>\<open>google.homegraph({version: 'v1', auth: client})\<close> is built without
  any call to the network; its \<^verbatim>\<open>auth\<close> is a reference to the manager's one
  client object, which the model keeps in the manager.
\<close>

datatype homegraph_handle = Homegraph (version: string)

record server =
  auth :: google_auth
  homegraph :: "homegraph_handle option"

datatype content_block = TextContent string

record tool_result =
  content :: "content_block list"

definition text_result :: "string \<Rightarrow> tool_result" where
  "text_result s = \<lparr>content = [TextContent s]\<rparr>"

datatype tool = Tool (tool_name: string) (description: string) (inputSchema: zshape)

text \<open>The handler of \<^verbatim>\<open>ListToolsRequestSchema\<close>.\<close>

definition listTools :: "tool list" where
  "listTools =
     [Tool ''execute_command'' ''Execute a command on Google Home devices'' ExecuteCommandSchema,
      Tool ''query_devices'' ''Query the state of Google Home devices'' QueryDevicesSchema,
      Tool ''get_device_states'' ''Get detailed states of specific devices'' GetDeviceStatesSchema,
      Tool ''list_devices'' ''List all available Google Home devices'' [],
      Tool ''get_auth_url'' ''Get the Google OAuth URL for authentication'' [],
      Tool ''authenticate'' ''Authenticate with Google using an authorization code'' AuthenticateSchema]"

text \<open>
  \<^verbatim>\<open>if (!this.auth.isAuthenticated()) throw new Error('Not authenticated. ...')\<close>,
  the first statement of the four device cases.
\<close>

definition require_auth :: "google_auth \<Rightarrow> js_error + unit" where
  "require_auth a =
     (case isAuthenticated a of
        Inl e \<Rightarrow> Inl e
      | Inr b \<Rightarrow>
          if \<not> b then Inl (Error ''Not authenticated. Please authenticate first.'')
          else Inr ())"

text \<open>\<^verbatim>\<open>if (!this.homegraph) { this.homegraph = google.homegraph({...}) }\<close>.\<close>

definition ensure_homegraph :: "server \<Rightarrow> (js_error + unit) \<times> server" where
  "ensure_homegraph s =
     (case homegraph s of
        Some h \<Rightarrow> (Inr (), s)
      | None \<Rightarrow>
          (case getClient (auth s) of
             Inl e \<Rightarrow> (Inl e, s)
           | Inr c \<Rightarrow> (Inr (), s\<lparr>homegraph := Some (Homegraph ''v1'')\<rparr>)))"

text \<open>
  The handler of \<^verbatim>\<open>CallToolRequestSchema\<close> follows, each \<^verbatim>\<open>case\<close> of its
  \<^verbatim>\<open>switch\<close> as a definition of its own. What a case throws is \<open>Inl\<close>; the
  server and the world are returned as the case leaves them. The handlers of
  \<^verbatim>\<open>server.ts\<close> and \<^verbatim>\<open>function.ts\<close> repeat the one of \<^verbatim>\<open>index.ts\<close>
  statement for statement.
\<close>

type_synonym call_outcome = "(js_error + tool_result) \<times> server \<times> world"

definition case_get_auth_url :: "externals \<Rightarrow> world \<Rightarrow> server \<Rightarrow> call_outcome" where
  "case_get_auth_url ext w s =
     (case isAuthenticated (auth s) of
        Inl e \<Rightarrow> (Inl e, s, w)
      | Inr b \<Rightarrow>
          if \<not> b then
            (case getAuthUrl ext (auth s) of
               Inl e \<Rightarrow> (Inl e, s, w)
             | Inr authUrl \<Rightarrow>
                 (Inr (text_result (''Please visit this URL to authorize the application:'' @ [CHR 0x0A] @ authUrl)), s, w))
          else (Inr (text_result ''Already authenticated with Google.''), s, w))"

text \<open>
  The \<^verbatim>\<open>code\<close> the schema has checked to be a string is passed on as it is.
\<close>

definition case_authenticate :: "externals \<Rightarrow> world \<Rightarrow> server \<Rightarrow> jsval \<Rightarrow> call_outcome" where
  "case_authenticate ext w s args =
     (case schema_parse ext AuthenticateSchema args of
        Inl e \<Rightarrow> (Inl e, s, w)
      | Inr parsed \<Rightarrow>
          (case getTokenFromCode ext w (auth s) (js_String ext (obj_get parsed ''code'')) of
             (Inl e, a', w') \<Rightarrow> (Inl e, s\<lparr>auth := a'\<rparr>, w')
           | (Inr u, a', w') \<Rightarrow>
               (case getClient a' of
                  Inl e \<Rightarrow> (Inl e, s\<lparr>auth := a'\<rparr>, w')
                | Inr c \<Rightarrow>
                    (Inr (text_result ''Successfully authenticated with Google!''),
                     s\<lparr>auth := a', homegraph := Some (Homegraph ''v1'')\<rparr>, w'))))"

definition case_execute_command :: "externals \<Rightarrow> world \<Rightarrow> server \<Rightarrow> jsval \<Rightarrow> call_outcome" where
  "case_execute_command ext w s args =
     (case require_auth (auth s) of
        Inl e \<Rightarrow> (Inl e, s, w)
      | Inr u \<Rightarrow>
          (case schema_parse ext ExecuteCommandSchema args of
             Inl e \<Rightarrow> (Inl e, s, w)
           | Inr parsed \<Rightarrow>
               (case ensure_homegraph s of
                  (Inl e, s1) \<Rightarrow> (Inl e, s1, w)
                | (Inr u, s1) \<Rightarrow>
                    (case devices_or_all ext (obj_get parsed ''devices'') of
                       Inl e \<Rightarrow> (Inl e, s1, w)
                     | Inr target \<Rightarrow>
                         (Inr (text_result
                            (''Command '' @ [CHR 0x22] @ js_String ext (obj_get parsed ''command'')
                             @ [CHR 0x22] @ '' would be executed on devices: '' @ target)),
                          s1, w)))))"

definition case_query_devices :: "externals \<Rightarrow> world \<Rightarrow> server \<Rightarrow> jsval \<Rightarrow> call_outcome" where
  "case_query_devices ext w s args =
     (case require_auth (auth s) of
        Inl e \<Rightarrow> (Inl e, s, w)
      | Inr u \<Rightarrow>
          (case schema_parse ext QueryDevicesSchema args of
             Inl e \<Rightarrow> (Inl e, s, w)
           | Inr parsed \<Rightarrow>
               (case ensure_homegraph s of
                  (Inl e, s1) \<Rightarrow> (Inl e, s1, w)
                | (Inr u, s1) \<Rightarrow>
                    (case devices_or_all ext (obj_get parsed ''devices'') of
                       Inl e \<Rightarrow> (Inl e, s1, w)
                     | Inr target \<Rightarrow>
                         (Inr (text_result (''Querying devices: '' @ target)), s1, w)))))"

definition case_get_device_states :: "externals \<Rightarrow> world \<Rightarrow> server \<Rightarrow> jsval \<Rightarrow> call_outcome" where
  "case_get_device_states ext w s args =
     (case require_auth (auth s) of
        Inl e \<Rightarrow> (Inl e, s, w)
      | Inr u \<Rightarrow>
          (case schema_parse ext GetDeviceStatesSchema args of
             Inl e \<Rightarrow> (Inl e, s, w)
           | Inr parsed \<Rightarrow>
               (case ensure_homegraph s of
                  (Inl e, s1) \<Rightarrow> (Inl e, s1, w)
                | (Inr u, s1) \<Rightarrow>
                    (case call_join ext ''deviceIds'' (obj_get parsed ''deviceIds'') '', '' of
                       Inl e \<Rightarrow> (Inl e, s1, w)
                     | Inr j \<Rightarrow>
                         (Inr (text_result (''Getting states for devices: '' @ js_String ext j)),
                          s1, w)))))"

definition case_list_devices :: "externals \<Rightarrow> world \<Rightarrow> server \<Rightarrow> call_outcome" where
  "case_list_devices ext w s =
     (case require_auth (auth s) of
        Inl e \<Rightarrow> (Inl e, s, w)
      | Inr u \<Rightarrow>
          (case ensure_homegraph s of
             (Inl e, s1) \<Rightarrow> (Inl e, s1, w)
           | (Inr u, s1) \<Rightarrow>
               (Inr (text_result ''Device listing would be implemented here''), s1, w)))"

text \<open>The \<^verbatim>\<open>switch (name)\<close> inside the \<^verbatim>\<open>try\<close> of the \<^verbatim>\<open>CallToolRequestSchema\<close> handler.\<close>

definition callTool_switch ::
  "externals \<Rightarrow> world \<Rightarrow> server \<Rightarrow> string \<Rightarrow> jsval \<Rightarrow> call_outcome" where
  "callTool_switch ext w s nm args =
     (if nm = ''get_auth_url'' then case_get_auth_url ext w s
      else if nm = ''authenticate'' then case_authenticate ext w s args
      else if nm = ''execute_command'' then case_execute_command ext w s args
      else if nm = ''query_devices'' then case_query_devices ext w s args
      else if nm = ''get_device_states'' then case_get_device_states ext w s args
      else if nm = ''list_devices'' then case_list_devices ext w s
      else (Inl (Error (''Unknown tool: '' @ nm)), s, w))"

text \<open>
  The handler: its \<^verbatim>\<open>catch\<close> turns whatever the switch throws into a text result
  \<^verbatim>\<open>`Error: ${errorMessage}`\<close>, every thrown value being an \<^verbatim>\<open>Error\<close>.
\<close>

definition callTool ::
  "externals \<Rightarrow> world \<Rightarrow> server \<Rightarrow> string \<Rightarrow> jsval \<Rightarrow> call_outcome" where
  "callTool ext w s nm args =
     (case callTool_switch ext w s nm args of
        (Inl e, s', w') \<Rightarrow> (Inr (text_result (''Error: '' @ message e)), s', w')
      | (Inr r, s', w') \<Rightarrow> (Inr r, s', w'))"

section \<open>Notions of the specification\<close>

text \<open>A field of a schema is required when its type is not \<^verbatim>\<open>.optional()\<close>.\<close>

fun is_optional :: "ztype \<Rightarrow> bool" where
  "is_optional (ZOptional t) = True"
| "is_optional t = False"

definition required_fields :: "zshape \<Rightarrow> string list" where
  "required_fields shape = map fst (filter (\<lambda>(k, t). \<not> is_optional t) shape)"

section \<open>A concrete deployment, for worked examples\<close>

text \<open>
  File contents are named rather than spelled out, \<^verbatim>\<open>JSON.parse\<close> and
  \<^verbatim>\<open>JSON.stringify\<close> relating the names to the values; the provider accepts the
  one code \<^verbatim>\<open>valid-code\<close>; the constructor keeps its three arguments and starts
  with the empty credentials. No number is rendered in the examples.
\<close>

definition example_credentials :: jsval where
  "example_credentials =
     JObj [(''installed'',
            JObj [(''client_id'', JStr ''example-client-id''),
                  (''client_secret'', JStr ''example-secret''),
                  (''redirect_uris'', JArr [JStr ''http://localhost''])])]"

definition example_tokens :: "(string \<times> jsval) list" where
  "example_tokens =
     [(''access_token'', JStr ''ya29.example''),
      (''refresh_token'', JStr ''1//example''),
      (''expiry_date'', JNum 1700000000000)]"

definition example_externals :: externals where
  "example_externals =
     \<lparr>JSON_parse = (\<lambda>s. if s = ''<credentials.json>'' then Inr example_credentials
                         else if s = ''<token.json>'' then Inr (JObj example_tokens)
                         else Inl (JsError ''SyntaxError'' ''Unexpected token'')),
      JSON_stringify = (\<lambda>v. if v = JObj example_tokens then ''<token.json>'' else ''null''),
      new_OAuth2Client = (\<lambda>cid secret redirect.
         \<lparr>clientId = cid, clientSecret = secret, redirectUri = redirect, credentials = JObj []\<rparr>),
      generateAuthUrl = (\<lambda>c opts. ''https://accounts.google.com/o/oauth2/v2/auth?access_type=''
                           @ access_type opts @ ''&scope='' @ join_strings ''%20'' (scope opts)),
      getToken = (\<lambda>w c code. if code = ''valid-code'' then Inr example_tokens
                              else Inl (JsError ''GaxiosError'' ''invalid_grant'')),
      zod_message = (\<lambda>issues. concat (map (\<lambda>i. ''Expected '' @ expected i @ '', received ''
                                                  @ received i @ ''; '') issues)),
      Number_toString = (\<lambda>r. ''0'')\<rparr>"

definition example_world :: world where
  "example_world =
     \<lparr>GOOGLE_CREDENTIALS = Some ''<credentials.json>'',
      files = (\<lambda>p. None),
      write_faults = (\<lambda>p. None),
      outbound = [],
      console = []\<rparr>"

definition empty_world :: world where
  "empty_world =
     \<lparr>GOOGLE_CREDENTIALS = None, files = (\<lambda>p. None), write_faults = (\<lambda>p. None), outbound = [],
      console = []\<rparr>"

text \<open>
  The same world with a token file from an earlier session, where the write of
  the token file is refused, and where it fails on a full disk after four bytes.
\<close>

definition readonly_world :: world where
  "readonly_world =
     example_world\<lparr>files := (\<lambda>p. if p = ''/app/token.json'' then Some ''<old token.json>'' else None),
                    write_faults := (\<lambda>p. if p = ''/app/token.json'' then Some RefusedAtOpen else None)\<rparr>"

definition full_disk_world :: world where
  "full_disk_world =
     example_world\<lparr>files := (\<lambda>p. if p = ''/app/token.json'' then Some ''<old token.json>'' else None),
                    write_faults := (\<lambda>p. if p = ''/app/token.json'' then Some (FailsAfter 4) else None)\<rparr>"

definition example_client :: oauth2_client where
  "example_client =
     new_OAuth2Client example_externals
       (JStr ''example-client-id'') (JStr ''example-secret'') (JStr ''http://localhost'')"

text \<open>A configured manager that holds no token, and the server around it.\<close>

definition example_manager :: google_auth where
  "example_manager = (new_GoogleAuth ''/app/dist'')\<lparr>oauth2Client := Some example_client\<rparr>"

definition example_server :: server where
  "example_server = \<lparr>auth = example_manager, homegraph = None\<rparr>"

text \<open>The same after a token set has been put on the client.\<close>

definition authenticated_server :: server where
  "authenticated_server =
     \<lparr>auth = (new_GoogleAuth ''/app/dist'')
               \<lparr>oauth2Client := Some (setCredentials example_client (JObj example_tokens))\<rparr>,
      homegraph = None\<rparr>"

section \<open>Auxiliary facts\<close>

lemma auth_true_client: "isAuthenticated a = Inr True \<Longrightarrow> \<exists>c. oauth2Client a = Some c"
  by (auto simp: isAuthenticated_def split: option.splits)

lemma load_credentials_env:
  assumes "GOOGLE_CREDENTIALS w = Some (x # xs)" and "JSON_parse ext (x # xs) = Inr creds"
  shows "load_credentials ext w a = (Inr (Some creds), w)"
  using assms by (simp add: load_credentials_def)

lemma load_credentials_file:
  assumes "GOOGLE_CREDENTIALS w = None \<or> GOOGLE_CREDENTIALS w = Some []"
    and "files w (credentialsPath a) = Some blob"
    and "JSON_parse ext blob = Inr creds"
  shows "load_credentials ext w a = (Inr (Some creds), w)"
  using assms by (auto simp: load_credentials_def fs_readFile_def)

lemma make_client_section:
  assumes sect: "obj_get kv ''installed'' = JObj sec
                 \<or> (\<not> truthy (obj_get kv ''installed'') \<and> obj_get kv ''web'' = JObj sec)"
    and uris: "obj_get sec ''redirect_uris'' = JArr uris"
  shows "make_client ext (JObj kv) =
           Inr (new_OAuth2Client ext (obj_get sec ''client_id'') (obj_get sec ''client_secret'')
                  (case uris of [] \<Rightarrow> JUndefined | u # us \<Rightarrow> u))"
proof -
  have gp: "get_prop (JObj m) k = Inr (obj_get m k)" for m k
    by (simp add: get_prop_def obj_get_def split: option.splits)
  have src: "(if truthy (obj_get kv ''installed'') then Inr (obj_get kv ''installed'')
              else get_prop (JObj kv) ''web'') = (Inr (JObj sec) :: js_error + jsval)"
    using sect by (auto simp: gp)
  have ix: "get_index0 (JArr uris) = Inr (case uris of [] \<Rightarrow> JUndefined | u # us \<Rightarrow> u)"
    by (simp add: get_index0_def split: list.splits)
  show ?thesis
    by (simp add: make_client_def gp src uris ix)
qed

lemma exchange_okD:
  assumes "getTokenFromCode ext w a code = (Inr (), a', w')"
  shows "\<exists>c tokens. oauth2Client a = Some c \<and> getToken ext w c code = Inr tokens
           \<and> a' = a\<lparr>oauth2Client := Some (setCredentials c (JObj tokens))\<rparr>
           \<and> w' = w\<lparr>outbound := outbound w @ [code],
                     files := (files w)(tokenPath a \<mapsto> JSON_stringify ext (JObj tokens))\<rparr>"
  using assms
  by (auto simp: getTokenFromCode_def fs_writeFile_def Let_def
      split: option.splits sum.splits write_fault.splits)

lemma example_paths:
  "path_join ''/app/dist'' ''../credentials.json'' = ''/app/credentials.json''"
  "path_join ''/app/dist'' ''../token.json'' = ''/app/token.json''"
  by (simp_all add: path_join_def path_normalize_def)

lemmas example_defs =
  example_credentials_def example_tokens_def example_externals_def example_world_def
  empty_world_def readonly_world_def full_disk_world_def example_client_def example_manager_def
  example_server_def authenticated_server_def new_GoogleAuth_def example_paths
  setCredentials_def

lemma example_valid_exchange:
  "getTokenFromCode example_externals example_world example_manager ''valid-code'' =
     (Inr (),
      example_manager\<lparr>oauth2Client := Some (setCredentials example_client (JObj example_tokens))\<rparr>,
      example_world\<lparr>outbound := [''valid-code''],
                     files := (files example_world)(''/app/token.json'' \<mapsto> ''<token.json>'')\<rparr>)"
  by (simp add: getTokenFromCode_def fs_writeFile_def Let_def example_defs)

section \<open>The dispatcher: unknown operations and argument validation\<close>

text \<open>
  Claim C1 says that a name outside the catalog makes the call raise an
  unknown-operation error instead of returning a text result. The \<^verbatim>\<open>throw\<close> of
  the \<^verbatim>\<open>default\<close> branch stands inside the \<^verbatim>\<open>try\<close>: for \<^verbatim>\<open>unknown_op\<close> and no
  arguments the handler returns the text \<^verbatim>\<open>Error: Unknown tool: unknown_op\<close>.
\<close>

theorem unknown_tool_counterexample:
  "''unknown_op'' \<notin> set (map tool_name listTools)
   \<and> fst (callTool example_externals example_world example_server ''unknown_op'' (JObj [])) =
       Inr (text_result ''Error: Unknown tool: unknown_op'')"
  by (simp add: listTools_def callTool_def callTool_switch_def Error_def)

text \<open>
  Claim C1, as the code has it: for every name outside the catalog and every
  arguments value the call returns the text result
  \<^verbatim>\<open>Error: Unknown tool: <name>\<close>, as for every other failure, and changes neither
  the server nor the world.
\<close>

theorem unknown_tool_enveloped:
  "nm \<notin> set (map tool_name listTools) \<Longrightarrow>
   callTool ext w s nm args = (Inr (text_result (''Error: Unknown tool: '' @ nm)), s, w)"
  by (simp add: listTools_def callTool_def callTool_switch_def Error_def)

theorem unknown_tool_enveloped_witness:
  "''turn_on_lights'' \<notin> set (map tool_name listTools)
   \<and> callTool example_externals empty_world authenticated_server ''turn_on_lights''
        (JObj [(''room'', JStr ''kitchen'')]) =
       (Inr (text_result ''Error: Unknown tool: turn_on_lights''), authenticated_server, empty_world)"
proof -
  have h: "''turn_on_lights'' \<notin> set (map tool_name listTools)"
    by (simp add: listTools_def)
  from unknown_tool_enveloped [OF h] h show ?thesis by simp
qed

text \<open>
  Claim C2 says that the arguments are validated before anything else. The device
  cases test authentication first: \<^verbatim>\<open>get_device_states\<close> without
  \<^verbatim>\<open>deviceIds\<close>, which the schema rejects, answers an unauthenticated caller
  with the authentication message.
\<close>

theorem validation_after_auth_counterexample:
  "Tool ''get_device_states'' ''Get detailed states of specific devices'' GetDeviceStatesSchema
     \<in> set listTools
   \<and> ''deviceIds'' \<in> set (required_fields GetDeviceStatesSchema)
   \<and> schema_parse example_externals GetDeviceStatesSchema (JObj []) =
       Inl (JsError ''ZodError'' ''Expected array, received undefined; '')
   \<and> callTool example_externals example_world example_server ''get_device_states'' (JObj []) =
       (Inr (text_result ''Error: Not authenticated. Please authenticate first.''),
        example_server, example_world)"
  by (simp add: listTools_def required_fields_def GetDeviceStatesSchema_def schema_parse_def
      object_issues_def obj_get_def ZodError_def callTool_def callTool_switch_def
      case_get_device_states_def require_auth_def isAuthenticated_def get_prop_def Error_def
      example_defs)

text \<open>
  Claim C2, as the code has it: for every tool of the catalog and every arguments
  object missing one of its required fields, the call returns a text result
  starting with \<^verbatim>\<open>Error: \<close> and changes neither the server nor the world (no
  token write, no outbound call). The text is the message of the validation
  failure, whose issues name the missing field as \<^verbatim>\<open>undefined\<close>, when the tool
  is \<^verbatim>\<open>authenticate\<close> or the manager is authenticated; it is the authentication
  message when a device tool is called unauthenticated.
\<close>

theorem missing_required_field:
  assumes tool: "Tool nm descr shape \<in> set listTools"
    and req: "k \<in> set (required_fields shape)"
    and miss: "map_of kv k = None"
  shows "(nm = ''authenticate'' \<or> isAuthenticated (auth s) = Inr True \<longrightarrow>
            (\<exists>ex. InvalidType ex ''undefined'' [Key k] \<in> set (object_issues shape kv))
            \<and> callTool ext w s nm (JObj kv) =
                (Inr (text_result (''Error: '' @ zod_message ext (object_issues shape kv))), s, w))
       \<and> (nm \<noteq> ''authenticate'' \<and> isAuthenticated (auth s) = Inr False \<longrightarrow>
            callTool ext w s nm (JObj kv) =
              (Inr (text_result ''Error: Not authenticated. Please authenticate first.''), s, w))
       \<and> (\<exists>msg. callTool ext w s nm (JObj kv) = (Inr (text_result (''Error: '' @ msg)), s, w))"
proof -
  from tool req consider
      (auth) "nm = ''authenticate''" "k = ''code''" "shape = AuthenticateSchema"
    | (exec) "nm = ''execute_command''" "k = ''command''" "shape = ExecuteCommandSchema"
    | (states) "nm = ''get_device_states''" "k = ''deviceIds''" "shape = GetDeviceStatesSchema"
    by (auto simp: listTools_def required_fields_def ExecuteCommandSchema_def
        QueryDevicesSchema_def GetDeviceStatesSchema_def AuthenticateSchema_def)
  then show ?thesis
  proof cases
    case auth
    with miss show ?thesis
      by (auto simp: callTool_def callTool_switch_def case_authenticate_def schema_parse_def
          AuthenticateSchema_def object_issues_def obj_get_def ZodError_def)
  next
    case exec
    with miss show ?thesis
      by (auto simp: callTool_def callTool_switch_def case_execute_command_def schema_parse_def
          ExecuteCommandSchema_def object_issues_def obj_get_def ZodError_def require_auth_def
          Error_def split: sum.splits)
  next
    case states
    with miss show ?thesis
      by (auto simp: callTool_def callTool_switch_def case_get_device_states_def schema_parse_def
          GetDeviceStatesSchema_def object_issues_def obj_get_def ZodError_def require_auth_def
          Error_def split: sum.splits)
  qed
qed

theorem missing_required_field_witness:
  "Tool ''execute_command'' ''Execute a command on Google Home devices'' ExecuteCommandSchema
     \<in> set listTools
   \<and> ''command'' \<in> set (required_fields ExecuteCommandSchema)
   \<and> map_of [(''devices'', JArr [JStr ''lamp''])] ''command'' = None
   \<and> isAuthenticated (auth authenticated_server) = Inr True
   \<and> callTool example_externals example_world authenticated_server ''execute_command''
        (JObj [(''devices'', JArr [JStr ''lamp''])]) =
       (Inr (text_result ''Error: Expected string, received undefined; ''),
        authenticated_server, example_world)
   \<and> isAuthenticated (auth example_server) = Inr False
   \<and> callTool example_externals example_world example_server ''execute_command''
        (JObj [(''devices'', JArr [JStr ''lamp''])]) =
       (Inr (text_result ''Error: Not authenticated. Please authenticate first.''),
        example_server, example_world)"
proof -
  have t: "Tool ''execute_command'' ''Execute a command on Google Home devices'' ExecuteCommandSchema
     \<in> set listTools"
    by (simp add: listTools_def)
  have r: "''command'' \<in> set (required_fields ExecuteCommandSchema)"
    by (simp add: required_fields_def ExecuteCommandSchema_def)
  have m: "map_of [(''devices'', JArr [JStr ''lamp''])] ''command'' = None"
    by simp
  have a1: "isAuthenticated (auth authenticated_server) = Inr True"
    by (simp add: isAuthenticated_def get_prop_def example_defs)
  have a2: "isAuthenticated (auth example_server) = Inr False"
    by (simp add: isAuthenticated_def get_prop_def example_defs)
  have i: "zod_message example_externals
             (object_issues ExecuteCommandSchema [(''devices'', JArr [JStr ''lamp''])]) =
           ''Expected string, received undefined; ''"
    by (simp add: object_issues_def ExecuteCommandSchema_def obj_get_def example_externals_def)
  from missing_required_field [OF t r m, of authenticated_server example_externals example_world]
    missing_required_field [OF t r m, of example_server example_externals example_world]
    t r a1 a2 i
  show ?thesis by simp
qed

section \<open>The code exchange\<close>

text \<open>
  Claim C3 says that every failing exchange, a failing store write included,
  leaves \<^verbatim>\<open>isAuthenticated()\<close> as it was and the token store untouched, never
  truncated or partially written. \<^verbatim>\<open>getTokenFromCode\<close> sets the credentials on
  the client before it writes the file, and writes it in place. With a token
  file that cannot be written the call fails, and the manager that was not
  authenticated before is authenticated after. On a full disk the call fails
  as well, and the token file of the earlier session is left holding the first
  bytes of the new one.
\<close>

theorem exchange_write_failure_counterexample:
  "isAuthenticated example_manager = Inr False
   \<and> fst (getTokenFromCode example_externals readonly_world example_manager ''valid-code'') =
       Inl (Error (''EACCES: permission denied, open '' @ quoted ''/app/token.json''))
   \<and> isAuthenticated
        (fst (snd (getTokenFromCode example_externals readonly_world example_manager ''valid-code'')))
       = Inr True
   \<and> files full_disk_world ''/app/token.json'' = Some ''<old token.json>''
   \<and> fst (getTokenFromCode example_externals full_disk_world example_manager ''valid-code'') =
       Inl (Error ''ENOSPC: no space left on device, write'')
   \<and> files (snd (snd (getTokenFromCode example_externals full_disk_world example_manager ''valid-code'')))
        ''/app/token.json'' = Some ''<tok''"
  by (simp add: getTokenFromCode_def fs_writeFile_def Let_def isAuthenticated_def get_prop_def
      example_defs)

text \<open>
  Claim C3, as the code has it. An exchange that fails because no client exists
  or because the provider refuses (an invalid code, a network error) surfaces
  that error and leaves the manager, hence \<^verbatim>\<open>isAuthenticated()\<close>, and every
  file as they were; a file changes only once the provider has returned a token
  set. A failing store write surfaces its error too, with the new token set
  already on the client: refused at the open it leaves the files as they were,
  failing after the open it leaves the token file holding the bytes written so
  far.
\<close>

theorem exchange_failure_leaves_state:
  "(oauth2Client a = None \<longrightarrow>
      getTokenFromCode ext w a code = (Inl (Error ''OAuth2 client not initialized''), a, w))
   \<and> (\<forall>c e. oauth2Client a = Some c \<and> getToken ext w c code = Inl e \<longrightarrow>
      getTokenFromCode ext w a code = (Inl e, a, w\<lparr>outbound := outbound w @ [code]\<rparr>))
   \<and> (\<forall>r a' w'. getTokenFromCode ext w a code = (r, a', w') \<and> files w' \<noteq> files w \<longrightarrow>
      (\<exists>c tokens. oauth2Client a = Some c \<and> getToken ext w c code = Inr tokens))
   \<and> (\<forall>c tokens. oauth2Client a = Some c \<and> getToken ext w c code = Inr tokens
          \<and> write_faults w (tokenPath a) = Some RefusedAtOpen \<longrightarrow>
      (\<exists>e. getTokenFromCode ext w a code =
        (Inl e, a\<lparr>oauth2Client := Some (setCredentials c (JObj tokens))\<rparr>,
         w\<lparr>outbound := outbound w @ [code]\<rparr>)))
   \<and> (\<forall>c tokens n. oauth2Client a = Some c \<and> getToken ext w c code = Inr tokens
          \<and> write_faults w (tokenPath a) = Some (FailsAfter n) \<longrightarrow>
      (\<exists>e. getTokenFromCode ext w a code =
        (Inl e, a\<lparr>oauth2Client := Some (setCredentials c (JObj tokens))\<rparr>,
         w\<lparr>outbound := outbound w @ [code],
           files := (files w)(tokenPath a \<mapsto> take n (JSON_stringify ext (JObj tokens)))\<rparr>)))"
proof (intro conjI allI impI)
  assume "oauth2Client a = None"
  then show "getTokenFromCode ext w a code = (Inl (Error ''OAuth2 client not initialized''), a, w)"
    by (simp add: getTokenFromCode_def)
next
  fix c e
  assume "oauth2Client a = Some c \<and> getToken ext w c code = Inl e"
  then show "getTokenFromCode ext w a code = (Inl e, a, w\<lparr>outbound := outbound w @ [code]\<rparr>)"
    by (simp add: getTokenFromCode_def Let_def)
next
  fix r a' w'
  assume "getTokenFromCode ext w a code = (r, a', w') \<and> files w' \<noteq> files w"
  then show "\<exists>c tokens. oauth2Client a = Some c \<and> getToken ext w c code = Inr tokens"
    by (auto simp: getTokenFromCode_def Let_def split: option.splits sum.splits)
next
  fix c tokens
  assume "oauth2Client a = Some c \<and> getToken ext w c code = Inr tokens
          \<and> write_faults w (tokenPath a) = Some RefusedAtOpen"
  then show "\<exists>e. getTokenFromCode ext w a code =
        (Inl e, a\<lparr>oauth2Client := Some (setCredentials c (JObj tokens))\<rparr>,
         w\<lparr>outbound := outbound w @ [code]\<rparr>)"
    by (simp add: getTokenFromCode_def fs_writeFile_def Let_def)
next
  fix c tokens n
  assume "oauth2Client a = Some c \<and> getToken ext w c code = Inr tokens
          \<and> write_faults w (tokenPath a) = Some (FailsAfter n)"
  then show "\<exists>e. getTokenFromCode ext w a code =
        (Inl e, a\<lparr>oauth2Client := Some (setCredentials c (JObj tokens))\<rparr>,
         w\<lparr>outbound := outbound w @ [code],
           files := (files w)(tokenPath a \<mapsto> take n (JSON_stringify ext (JObj tokens)))\<rparr>)"
    by (simp add: getTokenFromCode_def fs_writeFile_def Let_def)
qed

theorem exchange_failure_leaves_state_witness:
  "oauth2Client example_manager = Some example_client
   \<and> getToken example_externals example_world example_client ''expired-code'' =
       Inl (JsError ''GaxiosError'' ''invalid_grant'')
   \<and> getTokenFromCode example_externals example_world example_manager ''expired-code'' =
       (Inl (JsError ''GaxiosError'' ''invalid_grant''), example_manager,
        example_world\<lparr>outbound := [''expired-code'']\<rparr>)
   \<and> getTokenFromCode example_externals example_world (new_GoogleAuth ''/app/dist'') ''valid-code'' =
       (Inl (Error ''OAuth2 client not initialized''), new_GoogleAuth ''/app/dist'', example_world)
   \<and> write_faults full_disk_world (tokenPath example_manager) = Some (FailsAfter 4)
   \<and> fst (snd (getTokenFromCode example_externals full_disk_world example_manager ''valid-code'')) =
       example_manager\<lparr>oauth2Client := Some (setCredentials example_client (JObj example_tokens))\<rparr>
   \<and> files (snd (snd (getTokenFromCode example_externals full_disk_world example_manager ''valid-code'')))
        (tokenPath example_manager) = Some ''<tok''"
proof -
  have c: "oauth2Client example_manager = Some example_client"
    by (simp add: example_defs)
  have g: "getToken example_externals example_world example_client ''expired-code'' =
       Inl (JsError ''GaxiosError'' ''invalid_grant'')"
    by (simp add: example_externals_def)
  have n: "oauth2Client (new_GoogleAuth ''/app/dist'') = None"
    by (simp add: new_GoogleAuth_def)
  have o: "outbound example_world = []"
    by (simp add: example_world_def)
  have t: "getToken example_externals full_disk_world example_client ''valid-code'' = Inr example_tokens"
    by (simp add: example_externals_def)
  have f: "write_faults full_disk_world (tokenPath example_manager) = Some (FailsAfter 4)"
    by (simp add: example_defs)
  have s: "take 4 (JSON_stringify example_externals (JObj example_tokens)) = ''<tok''"
    by (simp add: example_externals_def)
  have 1: "getTokenFromCode example_externals example_world example_manager ''expired-code'' =
       (Inl (JsError ''GaxiosError'' ''invalid_grant''), example_manager,
        example_world\<lparr>outbound := outbound example_world @ [''expired-code'']\<rparr>)"
    using exchange_failure_leaves_state
            [of example_manager example_externals example_world "''expired-code''"] c g
    by blast
  have 2: "getTokenFromCode example_externals example_world (new_GoogleAuth ''/app/dist'') ''valid-code'' =
       (Inl (Error ''OAuth2 client not initialized''), new_GoogleAuth ''/app/dist'', example_world)"
    using exchange_failure_leaves_state
            [of "new_GoogleAuth ''/app/dist''" example_externals example_world "''valid-code''"] n
    by blast
  obtain e where 3: "getTokenFromCode example_externals full_disk_world example_manager ''valid-code'' =
       (Inl e, example_manager\<lparr>oauth2Client := Some (setCredentials example_client (JObj example_tokens))\<rparr>,
        full_disk_world\<lparr>outbound := outbound full_disk_world @ [''valid-code''],
           files := (files full_disk_world)(tokenPath example_manager \<mapsto>
                      take 4 (JSON_stringify example_externals (JObj example_tokens)))\<rparr>)"
    using exchange_failure_leaves_state
            [of example_manager example_externals full_disk_world "''valid-code''"] c t f
    by blast
  have 4: "files (snd (snd (getTokenFromCode example_externals full_disk_world example_manager ''valid-code'')))
        (tokenPath example_manager) = Some ''<tok''"
    by (simp add: 3 s)
  have 5: "fst (snd (getTokenFromCode example_externals full_disk_world example_manager ''valid-code'')) =
       example_manager\<lparr>oauth2Client := Some (setCredentials example_client (JObj example_tokens))\<rparr>"
    by (simp add: 3)
  show ?thesis
    by (simp only: c g 1 2 4 5 f o append_Nil simp_thms)
qed

text \<open>
  Claim C5: after a successful \<^verbatim>\<open>getTokenFromCode\<close> whose token set carries an
  access token, \<^verbatim>\<open>isAuthenticated()\<close> is true, the client's credentials are the
  token set, and the token file holds the serialised token set whatever it held
  before; one outbound call was made.
\<close>

theorem exchange_success:
  assumes ok: "getTokenFromCode ext w a code = (Inr (), a', w')"
    and cl: "oauth2Client a = Some c"
    and tk: "getToken ext w c code = Inr tokens"
    and at: "truthy (obj_get tokens ''access_token'')"
  shows "isAuthenticated a' = Inr True
       \<and> oauth2Client a' = Some (setCredentials c (JObj tokens))
       \<and> credentials (setCredentials c (JObj tokens)) = JObj tokens
       \<and> files w' (tokenPath a') = Some (JSON_stringify ext (JObj tokens))
       \<and> outbound w' = outbound w @ [code]"
proof -
  from exchange_okD [OF ok] cl tk have
    a': "a' = a\<lparr>oauth2Client := Some (setCredentials c (JObj tokens))\<rparr>" and
    w': "w' = w\<lparr>outbound := outbound w @ [code],
                files := (files w)(tokenPath a \<mapsto> JSON_stringify ext (JObj tokens))\<rparr>"
    by auto
  have "isAuthenticated a' = Inr True"
    using at by (simp add: a' isAuthenticated_def get_prop_def obj_get_def setCredentials_def
        split: option.splits)
  then show ?thesis by (simp add: a' w' setCredentials_def)
qed

theorem exchange_success_witness:
  "fst (getTokenFromCode example_externals
          (example_world\<lparr>files := (\<lambda>p. Some ''<old token>'')\<rparr>) example_manager ''valid-code'') = Inr ()
   \<and> truthy (obj_get example_tokens ''access_token'')
   \<and> isAuthenticated (fst (snd (getTokenFromCode example_externals
          (example_world\<lparr>files := (\<lambda>p. Some ''<old token>'')\<rparr>) example_manager ''valid-code'')))
       = Inr True
   \<and> files (snd (snd (getTokenFromCode example_externals
          (example_world\<lparr>files := (\<lambda>p. Some ''<old token>'')\<rparr>) example_manager ''valid-code'')))
        ''/app/token.json'' = Some ''<token.json>''"
proof -
  let ?w = "example_world\<lparr>files := (\<lambda>p. Some ''<old token>'')\<rparr>"
  let ?r = "getTokenFromCode example_externals ?w example_manager ''valid-code''"
  have f: "fst ?r = Inr ()"
    by (simp add: getTokenFromCode_def fs_writeFile_def Let_def example_defs)
  then have ok: "?r = (Inr (), fst (snd ?r), snd (snd ?r))"
    by (metis prod.collapse)
  have cl: "oauth2Client example_manager = Some example_client"
    by (simp add: example_defs)
  have tk: "getToken example_externals ?w example_client ''valid-code'' = Inr example_tokens"
    by (simp add: example_externals_def)
  have at: "truthy (obj_get example_tokens ''access_token'')"
    by (simp add: obj_get_def example_tokens_def)
  have tp: "tokenPath (fst (snd ?r)) = ''/app/token.json''"
    by (simp add: getTokenFromCode_def fs_writeFile_def Let_def example_defs)
  have js: "JSON_stringify example_externals (JObj example_tokens) = ''<token.json>''"
    by (simp add: example_externals_def)
  from exchange_success [OF ok cl tk at] f at tp js show ?thesis by simp
qed

section \<open>The authentication gate\<close>

text \<open>
  Claim C4: for each of \<^verbatim>\<open>list_devices\<close>, \<^verbatim>\<open>execute_command\<close>,
  \<^verbatim>\<open>query_devices\<close> and \<^verbatim>\<open>get_device_states\<close> and every arguments value, a
  call while \<^verbatim>\<open>isAuthenticated()\<close> is false returns the text
  \<^verbatim>\<open>Error: Not authenticated. Please authenticate first.\<close> and changes neither
  the server nor the world: no outbound call, no handle built, no attempt at the
  operation.
\<close>

theorem unauthenticated_gate:
  assumes "isAuthenticated (auth s) = Inr False"
    and "nm \<in> {''list_devices'', ''execute_command'', ''query_devices'', ''get_device_states''}"
  shows "callTool ext w s nm args =
           (Inr (text_result ''Error: Not authenticated. Please authenticate first.''), s, w)"
  using assms
  by (auto simp: callTool_def callTool_switch_def case_list_devices_def case_execute_command_def
      case_query_devices_def case_get_device_states_def require_auth_def Error_def)

theorem unauthenticated_gate_witness:
  "isAuthenticated (auth example_server) = Inr False
   \<and> callTool example_externals example_world example_server ''query_devices''
        (JObj [(''devices'', JArr [JStr ''lamp''])]) =
       (Inr (text_result ''Error: Not authenticated. Please authenticate first.''),
        example_server, example_world)"
proof -
  have a: "isAuthenticated (auth example_server) = Inr False"
    by (simp add: isAuthenticated_def get_prop_def example_defs)
  from unauthenticated_gate [OF a, of "''query_devices''"] a show ?thesis by simp
qed

section \<open>The credential manager's queries\<close>

text \<open>
  Claim C6: \<^verbatim>\<open>getAuthUrl\<close> fails with the error
  \<^verbatim>\<open>OAuth2 client not initialized\<close> when no client exists; otherwise its result
  is the URL the client generates for the request of \<^verbatim>\<open>access_type\<close>
  \<^verbatim>\<open>offline\<close> with the two scopes (home graph, assistant prototype): a function
  of the client alone, the same on every call, and nothing is changed.
\<close>

theorem getAuthUrl_request:
  "(oauth2Client a = None \<longrightarrow> getAuthUrl ext a = Inl (Error ''OAuth2 client not initialized''))
   \<and> (\<forall>c. oauth2Client a = Some c \<longrightarrow>
         getAuthUrl ext a =
           Inr (generateAuthUrl ext c
                  \<lparr>access_type = ''offline'',
                   scope = [''https://www.googleapis.com/auth/homegraph'',
                            ''https://www.googleapis.com/auth/assistant-sdk-prototype'']\<rparr>))"
  by (simp add: getAuthUrl_def homegraph_scope_def assistant_scope_def)

theorem getAuthUrl_request_witness:
  "oauth2Client (new_GoogleAuth ''/app/dist'') = None
   \<and> getAuthUrl example_externals (new_GoogleAuth ''/app/dist'') =
       Inl (Error ''OAuth2 client not initialized'')
   \<and> oauth2Client example_manager = Some example_client
   \<and> getAuthUrl example_externals example_manager =
       Inr ''https://accounts.google.com/o/oauth2/v2/auth?access_type=offline&scope=https://www.googleapis.com/auth/homegraph%20https://www.googleapis.com/auth/assistant-sdk-prototype''"
proof -
  have n: "oauth2Client (new_GoogleAuth ''/app/dist'') = None"
    by (simp add: new_GoogleAuth_def)
  have c: "oauth2Client example_manager = Some example_client"
    by (simp add: example_defs)
  have u: "generateAuthUrl example_externals example_client
             \<lparr>access_type = ''offline'',
              scope = [''https://www.googleapis.com/auth/homegraph'',
                       ''https://www.googleapis.com/auth/assistant-sdk-prototype'']\<rparr> =
           ''https://accounts.google.com/o/oauth2/v2/auth?access_type=offline&scope=https://www.googleapis.com/auth/homegraph%20https://www.googleapis.com/auth/assistant-sdk-prototype''"
    by (simp add: example_externals_def)
  have 1: "getAuthUrl example_externals (new_GoogleAuth ''/app/dist'') =
       Inl (Error ''OAuth2 client not initialized'')"
    using getAuthUrl_request [of "new_GoogleAuth ''/app/dist''" example_externals] n by blast
  have 2: "getAuthUrl example_externals example_manager =
       Inr (generateAuthUrl example_externals example_client
             \<lparr>access_type = ''offline'',
              scope = [''https://www.googleapis.com/auth/homegraph'',
                       ''https://www.googleapis.com/auth/assistant-sdk-prototype'']\<rparr>)"
    using getAuthUrl_request [of example_manager example_externals] c by blast
  show ?thesis
    by (simp only: n c 1 2 u simp_thms)
qed

text \<open>
  Claim C8: \<^verbatim>\<open>isAuthenticated()\<close> returns true exactly when a client exists
  whose credentials hold a truthy \<^verbatim>\<open>access_token\<close>; for a string token that is
  a non-empty one, whatever the expiry date is. It reads the manager only: no
  world, no clock.
\<close>

theorem isAuthenticated_iff:
  "(isAuthenticated a = Inr True \<longleftrightarrow>
      (\<exists>c t. oauth2Client a = Some c \<and> get_prop (credentials c) ''access_token'' = Inr t \<and> truthy t))
   \<and> isAuthenticated
        (a\<lparr>oauth2Client := Some (c\<lparr>credentials :=
            JObj [(''access_token'', JStr tok), (''expiry_date'', e)]\<rparr>)\<rparr>) = Inr (tok \<noteq> [])"
  by (auto simp: isAuthenticated_def get_prop_def split: option.splits sum.splits)

theorem isAuthenticated_iff_witness:
  "isAuthenticated
     ((new_GoogleAuth ''/app/dist'')\<lparr>oauth2Client := Some (example_client\<lparr>credentials :=
         JObj [(''access_token'', JStr ''ya29.example''), (''expiry_date'', JNum 0)]\<rparr>)\<rparr>) = Inr True
   \<and> isAuthenticated
     ((new_GoogleAuth ''/app/dist'')\<lparr>oauth2Client := Some (example_client\<lparr>credentials :=
         JObj [(''access_token'', JStr ''''), (''expiry_date'', JNum 1700000000000)]\<rparr>)\<rparr>) = Inr False"
  using isAuthenticated_iff [where a = "new_GoogleAuth ''/app/dist''" and c = example_client
      and tok = "''ya29.example''" and e = "JNum 0"]
    isAuthenticated_iff [where a = "new_GoogleAuth ''/app/dist''" and c = example_client
      and tok = "[]" and e = "JNum 1700000000000"]
  by simp

section \<open>Initialisation\<close>

text \<open>
  Claim C9: with no credentials in the environment and no credentials file,
  \<^verbatim>\<open>initialize\<close> of a manager without a client returns normally, leaves the
  manager as it was, makes no outbound call and writes no file; afterwards
  \<^verbatim>\<open>isAuthenticated()\<close> is false and \<^verbatim>\<open>getAuthUrl()\<close> fails with
  \<^verbatim>\<open>OAuth2 client not initialized\<close>.
\<close>

theorem initialize_without_source:
  assumes "GOOGLE_CREDENTIALS w = None \<or> GOOGLE_CREDENTIALS w = Some []"
    and "files w (credentialsPath a) = None"
    and "oauth2Client a = None"
  shows "(\<exists>w'. initialize ext w a = (Inr (), a, w')
            \<and> outbound w' = outbound w \<and> files w' = files w)
       \<and> isAuthenticated a = Inr False
       \<and> getAuthUrl ext a = Inl (Error ''OAuth2 client not initialized'')"
  using assms
  by (auto simp: initialize_def initialize_body_def load_credentials_def fs_readFile_def
      console_log_def isAuthenticated_def getAuthUrl_def)

theorem initialize_without_source_witness:
  "GOOGLE_CREDENTIALS empty_world = None
   \<and> files empty_world (credentialsPath (new_GoogleAuth ''/app/dist'')) = None
   \<and> oauth2Client (new_GoogleAuth ''/app/dist'') = None
   \<and> fst (initialize example_externals empty_world (new_GoogleAuth ''/app/dist'')) = Inr ()
   \<and> fst (snd (initialize example_externals empty_world (new_GoogleAuth ''/app/dist''))) =
       new_GoogleAuth ''/app/dist''
   \<and> isAuthenticated (new_GoogleAuth ''/app/dist'') = Inr False
   \<and> getAuthUrl example_externals (new_GoogleAuth ''/app/dist'') =
       Inl (Error ''OAuth2 client not initialized'')"
proof -
  have e: "GOOGLE_CREDENTIALS empty_world = None \<or> GOOGLE_CREDENTIALS empty_world = Some []"
    by (simp add: empty_world_def)
  have e': "GOOGLE_CREDENTIALS empty_world = None"
    by (simp add: empty_world_def)
  have f: "files empty_world (credentialsPath (new_GoogleAuth ''/app/dist'')) = None"
    by (simp add: empty_world_def)
  have n: "oauth2Client (new_GoogleAuth ''/app/dist'') = None"
    by (simp add: new_GoogleAuth_def)
  from initialize_without_source [OF e f n, of example_externals]
  obtain w' where
    "initialize example_externals empty_world (new_GoogleAuth ''/app/dist'') =
       (Inr (), new_GoogleAuth ''/app/dist'', w')"
    "isAuthenticated (new_GoogleAuth ''/app/dist'') = Inr False"
    "getAuthUrl example_externals (new_GoogleAuth ''/app/dist'') =
       Inl (Error ''OAuth2 client not initialized'')"
    by blast
  with e' f n show ?thesis by simp
qed

text \<open>
  Claim C7. Let a successful \<^verbatim>\<open>getTokenFromCode\<close> have written the token file,
  and let parsing give back the token set it serialised. Let a freshly
  constructed manager find that file and a credential source: the environment
  variable, or else the credentials file, holding an object whose \<^verbatim>\<open>installed\<close>
  or else \<^verbatim>\<open>web\<close> object has an array \<^verbatim>\<open>redirect_uris\<close>. Then \<^verbatim>\<open>initialize\<close>
  returns normally with the world as it found it (no outbound call), the client
  is the one constructed from that credential with the token set as its
  credentials, and \<^verbatim>\<open>isAuthenticated()\<close> answers as it did after the exchange:
  true when the token set carries an access token.
\<close>

theorem restart_restores_session:
  assumes exch: "getTokenFromCode ext w a code = (Inr (), a', w')"
    and cl: "oauth2Client a = Some c"
    and tk: "getToken ext w c code = Inr tokens"
    and rt: "JSON_parse ext (JSON_stringify ext (JObj tokens)) = Inr (JObj tokens)"
    and store: "files wr (tokenPath (new_GoogleAuth d)) = files w' (tokenPath a)"
    and src: "(GOOGLE_CREDENTIALS wr = Some (x # xs) \<and> JSON_parse ext (x # xs) = Inr (JObj kv))
              \<or> ((GOOGLE_CREDENTIALS wr = None \<or> GOOGLE_CREDENTIALS wr = Some [])
                  \<and> files wr (credentialsPath (new_GoogleAuth d)) = Some blob
                  \<and> JSON_parse ext blob = Inr (JObj kv))"
    and sect: "obj_get kv ''installed'' = JObj sec
               \<or> (\<not> truthy (obj_get kv ''installed'') \<and> obj_get kv ''web'' = JObj sec)"
    and uris: "obj_get sec ''redirect_uris'' = JArr uris"
  shows "initialize ext wr (new_GoogleAuth d) =
           (Inr (),
            (new_GoogleAuth d)\<lparr>oauth2Client := Some (setCredentials
               (new_OAuth2Client ext (obj_get sec ''client_id'') (obj_get sec ''client_secret'')
                  (case uris of [] \<Rightarrow> JUndefined | u # us \<Rightarrow> u))
               (JObj tokens))\<rparr>,
            wr)
       \<and> isAuthenticated (fst (snd (initialize ext wr (new_GoogleAuth d)))) = isAuthenticated a'
       \<and> (truthy (obj_get tokens ''access_token'') \<longrightarrow>
            isAuthenticated (fst (snd (initialize ext wr (new_GoogleAuth d)))) = Inr True)"
proof -
  let ?c0 = "new_OAuth2Client ext (obj_get sec ''client_id'') (obj_get sec ''client_secret'')
               (case uris of [] \<Rightarrow> JUndefined | u # us \<Rightarrow> u)"
  let ?b = "(new_GoogleAuth d)\<lparr>oauth2Client := Some (setCredentials ?c0 (JObj tokens))\<rparr>"
  from exchange_okD [OF exch] cl tk have
    a': "a' = a\<lparr>oauth2Client := Some (setCredentials c (JObj tokens))\<rparr>" and
    w': "w' = w\<lparr>outbound := outbound w @ [code],
                files := (files w)(tokenPath a \<mapsto> JSON_stringify ext (JObj tokens))\<rparr>"
    by auto
  from store w' have tf:
    "files wr (tokenPath (new_GoogleAuth d)) = Some (JSON_stringify ext (JObj tokens))"
    by simp
  from src have lc: "load_credentials ext wr (new_GoogleAuth d) = (Inr (Some (JObj kv)), wr)"
    using load_credentials_env load_credentials_file by blast
  have mc: "make_client ext (JObj kv) = Inr ?c0"
    by (rule make_client_section [OF sect uris])
  have lt: "load_token ext wr (new_GoogleAuth d) ?c0 = (setCredentials ?c0 (JObj tokens), wr)"
    using tf rt by (simp add: load_token_def fs_readFile_def)
  have ini: "initialize ext wr (new_GoogleAuth d) = (Inr (), ?b, wr)"
    by (simp add: initialize_def initialize_body_def lc mc lt)
  have ib: "isAuthenticated ?b = Inr (truthy (obj_get tokens ''access_token''))"
    by (simp add: isAuthenticated_def get_prop_def obj_get_def setCredentials_def
        split: option.splits)
  have ia: "isAuthenticated a' = Inr (truthy (obj_get tokens ''access_token''))"
    by (simp add: a' isAuthenticated_def get_prop_def obj_get_def setCredentials_def
        split: option.splits)
  show ?thesis
    by (simp add: ini ib ia)
qed

theorem restart_restores_session_witness:
  "fst (getTokenFromCode example_externals example_world example_manager ''valid-code'') = Inr ()
   \<and> GOOGLE_CREDENTIALS
        (snd (snd (getTokenFromCode example_externals example_world example_manager ''valid-code'')))
       = Some ''<credentials.json>''
   \<and> JSON_parse example_externals ''<credentials.json>'' = Inr example_credentials
   \<and> truthy (obj_get example_tokens ''access_token'')
   \<and> fst (initialize example_externals
        (snd (snd (getTokenFromCode example_externals example_world example_manager ''valid-code'')))
        (new_GoogleAuth ''/app/dist'')) = Inr ()
   \<and> isAuthenticated (fst (snd (initialize example_externals
        (snd (snd (getTokenFromCode example_externals example_world example_manager ''valid-code'')))
        (new_GoogleAuth ''/app/dist'')))) = Inr True
   \<and> outbound (snd (snd (initialize example_externals
        (snd (snd (getTokenFromCode example_externals example_world example_manager ''valid-code'')))
        (new_GoogleAuth ''/app/dist'')))) = [''valid-code'']"
proof -
  let ?w' = "example_world\<lparr>outbound := [''valid-code''],
                     files := (files example_world)(''/app/token.json'' \<mapsto> ''<token.json>'')\<rparr>"
  let ?kv = "[(''installed'',
            JObj [(''client_id'', JStr ''example-client-id''),
                  (''client_secret'', JStr ''example-secret''),
                  (''redirect_uris'', JArr [JStr ''http://localhost''])])]"
  let ?sec = "[(''client_id'', JStr ''example-client-id''),
                  (''client_secret'', JStr ''example-secret''),
                  (''redirect_uris'', JArr [JStr ''http://localhost''])]"
  have sw: "snd (snd (getTokenFromCode example_externals example_world example_manager ''valid-code'')) = ?w'"
    by (simp add: example_valid_exchange)
  have ok: "fst (getTokenFromCode example_externals example_world example_manager ''valid-code'') = Inr ()"
    by (simp add: example_valid_exchange)
  have cl: "oauth2Client example_manager = Some example_client"
    by (simp add: example_defs)
  have tk: "getToken example_externals example_world example_client ''valid-code'' = Inr example_tokens"
    by (simp add: example_externals_def)
  have rt: "JSON_parse example_externals (JSON_stringify example_externals (JObj example_tokens)) =
            Inr (JObj example_tokens)"
    by (simp add: example_externals_def)
  have store: "files ?w' (tokenPath (new_GoogleAuth ''/app/dist'')) = files ?w' (tokenPath example_manager)"
    by (simp add: example_defs)
  have env: "GOOGLE_CREDENTIALS ?w' = Some ''<credentials.json>''"
    by (simp add: example_world_def)
  have pc: "JSON_parse example_externals ''<credentials.json>'' = Inr (JObj ?kv)"
    by (simp add: example_externals_def example_credentials_def)
  have src: "(GOOGLE_CREDENTIALS ?w' = Some (CHR ''<'' # ''credentials.json>'')
                \<and> JSON_parse example_externals (CHR ''<'' # ''credentials.json>'') = Inr (JObj ?kv))
              \<or> ((GOOGLE_CREDENTIALS ?w' = None \<or> GOOGLE_CREDENTIALS ?w' = Some [])
                  \<and> files ?w' (credentialsPath (new_GoogleAuth ''/app/dist'')) = Some []
                  \<and> JSON_parse example_externals [] = Inr (JObj ?kv))"
    using env pc by simp
  have sect: "obj_get ?kv ''installed'' = JObj ?sec
               \<or> (\<not> truthy (obj_get ?kv ''installed'') \<and> obj_get ?kv ''web'' = JObj ?sec)"
    by (simp add: obj_get_def)
  have uris: "obj_get ?sec ''redirect_uris'' = JArr [JStr ''http://localhost'']"
    by (simp add: obj_get_def)
  have at: "truthy (obj_get example_tokens ''access_token'')"
    by (simp add: obj_get_def example_tokens_def)
  have ob: "outbound ?w' = [''valid-code'']"
    by simp
  have pc': "JSON_parse example_externals ''<credentials.json>'' = Inr example_credentials"
    by (simp add: example_externals_def)
  note restart = restart_restores_session [OF example_valid_exchange cl tk rt store src sect uris]
  from restart obtain b where
    ib: "initialize example_externals ?w' (new_GoogleAuth ''/app/dist'') = (Inr (), b, ?w')"
    by blast
  from restart at have
    ia: "isAuthenticated (fst (snd (initialize example_externals ?w' (new_GoogleAuth ''/app/dist'')))) = Inr True"
    by blast
  have i1: "fst (initialize example_externals ?w' (new_GoogleAuth ''/app/dist'')) = Inr ()"
    by (simp add: ib)
  have i2: "outbound (snd (snd (initialize example_externals ?w' (new_GoogleAuth ''/app/dist'')))) = [''valid-code'']"
    by (simp add: ib)
  show ?thesis
    by (simp only: sw ok env pc' at i1 i2 ia simp_thms)
qed

section \<open>The empty device list\<close>

text \<open>
  Claim C10: for an authenticated call whose \<^verbatim>\<open>devices\<close> argument is the empty
  list, \<^verbatim>\<open>query_devices\<close> and (given its \<^verbatim>\<open>command\<close>) \<^verbatim>\<open>execute_command\<close>
  report the target as \<^verbatim>\<open>all devices\<close>, and the whole outcome is the one of
  the call that omits \<^verbatim>\<open>devices\<close>.
\<close>

theorem empty_devices_means_all:
  assumes au: "isAuthenticated (auth s) = Inr True"
    and dev: "map_of kv ''devices'' = Some (JArr [])"
    and nodev: "map_of kv' ''devices'' = None"
  shows "fst (callTool ext w s ''query_devices'' (JObj kv)) =
           Inr (text_result ''Querying devices: all devices'')
       \<and> callTool ext w s ''query_devices'' (JObj kv) = callTool ext w s ''query_devices'' (JObj kv')
       \<and> (map_of kv ''command'' = Some (JStr c) \<and> map_of kv' ''command'' = Some (JStr c) \<longrightarrow>
            fst (callTool ext w s ''execute_command'' (JObj kv)) =
              Inr (text_result (''Command '' @ [CHR 0x22] @ c @ [CHR 0x22]
                     @ '' would be executed on devices: all devices''))
            \<and> callTool ext w s ''execute_command'' (JObj kv) =
                callTool ext w s ''execute_command'' (JObj kv'))"
proof -
  from au obtain cl where cl: "oauth2Client (auth s) = Some cl"
    using auth_true_client by blast
  have ra: "require_auth (auth s) = Inr ()"
    using au by (simp add: require_auth_def)
  have "\<exists>s1. ensure_homegraph s = (Inr (), s1)"
    using cl by (auto simp: ensure_homegraph_def getClient_def split: option.splits)
  then obtain s1 where s1: "ensure_homegraph s = (Inr (), s1)" by blast
  have d1: "devices_or_all ext (JArr []) = Inr ''all devices''"
    by (simp add: devices_or_all_def optional_call_join_def call_join_def js_join_def)
  have d2: "devices_or_all ext JUndefined = Inr ''all devices''"
    by (simp add: devices_or_all_def optional_call_join_def)
  have q1: "callTool ext w s ''query_devices'' (JObj kv) =
      (Inr (text_result ''Querying devices: all devices''), s1, w)"
    using dev ra s1 d1
    by (simp add: callTool_def callTool_switch_def case_query_devices_def schema_parse_def
        QueryDevicesSchema_def object_issues_def obj_get_def strip_unknown_def)
  have q2: "callTool ext w s ''query_devices'' (JObj kv') =
      (Inr (text_result ''Querying devices: all devices''), s1, w)"
    using nodev ra s1 d2
    by (simp add: callTool_def callTool_switch_def case_query_devices_def schema_parse_def
        QueryDevicesSchema_def object_issues_def obj_get_def strip_unknown_def)
  have e1: "callTool ext w s ''execute_command'' (JObj kv) =
      (Inr (text_result (''Command '' @ [CHR 0x22] @ c @ [CHR 0x22]
                  @ '' would be executed on devices: all devices'')), s1, w)"
    if "map_of kv ''command'' = Some (JStr c)"
    using that dev ra s1 d1
    by (simp add: callTool_def callTool_switch_def case_execute_command_def schema_parse_def
        ExecuteCommandSchema_def object_issues_def obj_get_def strip_unknown_def)
  have e2: "callTool ext w s ''execute_command'' (JObj kv') =
      (Inr (text_result (''Command '' @ [CHR 0x22] @ c @ [CHR 0x22]
                  @ '' would be executed on devices: all devices'')), s1, w)"
    if "map_of kv' ''command'' = Some (JStr c)"
    using that nodev ra s1 d2
    by (simp add: callTool_def callTool_switch_def case_execute_command_def schema_parse_def
        ExecuteCommandSchema_def object_issues_def obj_get_def strip_unknown_def)
  show ?thesis by (simp add: e1 e2 q1 q2)
qed

theorem empty_devices_means_all_witness:
  "isAuthenticated (auth authenticated_server) = Inr True
   \<and> fst (callTool example_externals example_world authenticated_server ''execute_command''
        (JObj [(''command'', JStr ''lights off''), (''devices'', JArr [])])) =
       Inr (text_result (''Command '' @ [CHR 0x22] @ ''lights off'' @ [CHR 0x22]
              @ '' would be executed on devices: all devices''))
   \<and> callTool example_externals example_world authenticated_server ''execute_command''
        (JObj [(''command'', JStr ''lights off''), (''devices'', JArr [])]) =
     callTool example_externals example_world authenticated_server ''execute_command''
        (JObj [(''command'', JStr ''lights off'')])
   \<and> fst (callTool example_externals example_world authenticated_server ''query_devices''
        (JObj [(''command'', JStr ''lights off''), (''devices'', JArr [])])) =
       Inr (text_result ''Querying devices: all devices'')"
proof -
  have a: "isAuthenticated (auth authenticated_server) = Inr True"
    by (simp add: isAuthenticated_def get_prop_def example_defs)
  have 1: "map_of [(''command'', JStr ''lights off''), (''devices'', JArr [])] ''devices'' = Some (JArr [])"
    by simp
  have 2: "map_of [(''command'', JStr ''lights off'')] ''devices'' = None"
    by simp
  have 3: "map_of [(''command'', JStr ''lights off''), (''devices'', JArr [])] ''command'' = Some (JStr ''lights off'')"
    by simp
  have 4: "map_of [(''command'', JStr ''lights off'')] ''command'' = Some (JStr ''lights off'')"
    by simp
  from empty_devices_means_all [OF a 1 2, of example_externals example_world "''lights off''"] a 3 4
  show ?thesis by blast
qed

end
